theory Spec2Isabelle
  imports Main "HOL-Library.Word"
begin

section \<open>Data model of the replica state core (floyd\_context.cc)\<close>

text \<open>
  The C++ fields of type \<^verbatim>\<open>uint64_t\<close> are 64-bit words (\<open>+\<close> wraps around), ports are
  32-bit words (the bit pattern of the \<^verbatim>\<open>int\<close>/\<^verbatim>\<open>uint32_t\<close> values the source compares
  and assigns), strings are \<open>string\<close>. Field names are the source's without the trailing
  underscore.
\<close>

type_synonym u64 = "64 word"
type_synonym u32 = "32 word"

datatype Role = kFollower | kCandidate | kLeader

datatype error = AssertFailed

text \<open>
  Modelled from the spec: the type \<^verbatim>\<open>Entry\<close> (a generated message class) is not among the
  sources. An entry carries the term in which it was created and an opaque command; its
  index is its 1-based position in the log ("Indices are 1-based, dense").
\<close>

record Entry =
  entry_term :: u64
  command :: string

text \<open>A default-constructed \<^verbatim>\<open>Entry\<close>, as \<^verbatim>\<open>Entry entry;\<close> builds it: all fields zero.\<close>

definition Entry_default :: Entry where
  "Entry_default = \<lparr>entry_term = 0, command = []\<rparr>"

text \<open>
  Modelled from the spec: the class \<^verbatim>\<open>FileLog\<close> (the Log Store of section 4.1) is not
  among the sources. It holds the ordered entries and the atomic metadata record
  (current term, voted-for identity). \<open>meta_flushes\<close> is a ghost counter of the calls of
  \<^verbatim>\<open>UpdateMetadata\<close>, so that "no metadata flush happened" can be stated.
\<close>

record FileLog =
  entries :: "Entry list"
  meta_current_term :: u64
  meta_voted_for_ip :: string
  meta_voted_for_port :: u32
  meta_flushes :: nat

text \<open>Modelled from the spec: \<^verbatim>\<open>get_last_log_index\<close> of the absent Log Store.\<close>

definition GetLastLogIndex :: "FileLog \<Rightarrow> u64" where
  "GetLastLogIndex l = of_nat (length (entries l))"

text \<open>
  Modelled from the spec: \<^verbatim>\<open>get_last_log_term_and_index\<close> of the absent Log Store,
  "returns (0, 0) when the log is empty". The pair is (term, index).
\<close>

definition GetLastLogTermAndIndex :: "FileLog \<Rightarrow> u64 \<times> u64" where
  "GetLastLogTermAndIndex l =
     (if entries l = [] then (0, 0)
      else (entry_term (last (entries l)), of_nat (length (entries l))))"

text \<open>
  Modelled from the spec: \<^verbatim>\<open>get_entry\<close> of the absent Log Store, a random-access read
  by 1-based index. \<open>None\<close> stands for an index with no entry, where the source's output
  parameter is left as it was.
\<close>

definition GetEntry :: "FileLog \<Rightarrow> u64 \<Rightarrow> Entry option" where
  "GetEntry l i =
     (if 1 \<le> unat i \<and> unat i \<le> length (entries l)
      then Some (entries l ! (unat i - 1)) else None)"

text \<open>
  Modelled from the spec: \<^verbatim>\<open>truncate_suffix(last_kept_index)\<close> of the absent Log Store,
  "drop all entries with index > last\_kept\_index".
\<close>

definition TruncateSuffix :: "u64 \<Rightarrow> FileLog \<Rightarrow> FileLog" where
  "TruncateSuffix last_kept l = l\<lparr>entries := take (unat last_kept) (entries l)\<rparr>"

text \<open>Modelled from the spec: \<^verbatim>\<open>append(entries)\<close> of the absent Log Store.\<close>

definition Append :: "Entry list \<Rightarrow> FileLog \<Rightarrow> FileLog" where
  "Append es l = l\<lparr>entries := entries l @ es\<rparr>"

text \<open>
  Modelled from the spec: \<^verbatim>\<open>update_metadata(current_term, voted_for_ip, voted_for_port)\<close>
  of the absent Log Store, an atomic durable write of the three values.
\<close>

definition UpdateMetadata :: "u64 \<Rightarrow> string \<Rightarrow> u32 \<Rightarrow> FileLog \<Rightarrow> FileLog" where
  "UpdateMetadata t ip port l =
     l\<lparr>meta_current_term := t, meta_voted_for_ip := ip, meta_voted_for_port := port,
       meta_flushes := Suc (meta_flushes l)\<rparr>"

text \<open>
  The fields of \<^verbatim>\<open>floyd::Options\<close> that \<^verbatim>\<open>FloydContext\<close> reads. The declaration is not
  among the sources; \<open>elect_timeout_ms\<close> is taken as \<^verbatim>\<open>uint64_t\<close>, the type that
  \<^verbatim>\<open>GetElectLeaderTimeout\<close> returns.
\<close>

record Options =
  local_ip :: string
  local_port :: u32
  members :: "string list"
  elect_timeout_ms :: u64

record FloydContext =
  options :: Options
  log :: FileLog
  current_term :: u64
  role :: Role
  voted_for_ip :: string
  voted_for_port :: u32
  leader_ip :: string
  leader_port :: u32
  vote_quorum :: u64
  commit_index :: u64
  apply_index :: u64

section \<open>Operations of FloydContext\<close>

text \<open>The constructor: term 0, Follower, no vote, no leader, nothing committed.\<close>

definition FloydContext_init :: "Options \<Rightarrow> FileLog \<Rightarrow> FloydContext" where
  "FloydContext_init opt l =
     \<lparr>options = opt, log = l, current_term = 0, role = kFollower,
      voted_for_ip = [], voted_for_port = 0, leader_ip = [], leader_port = 0,
      vote_quorum = 0, commit_index = 0, apply_index = 0\<rparr>"

text \<open>
  \<^verbatim>\<open>rand() % (options_.elect_timeout_ms * 2) + options_.elect_timeout_ms\<close>. The argument
  \<open>r\<close> is the value \<^verbatim>\<open>rand()\<close> returned, converted to the unsigned operand type. A zero
  divisor is undefined behaviour in C++: \<open>None\<close>.
\<close>

definition GetElectLeaderTimeout :: "u64 \<Rightarrow> FloydContext \<Rightarrow> u64 option" where
  "GetElectLeaderTimeout r s =
     (let e = elect_timeout_ms (options s) in
      if e * 2 = 0 then None else Some (r mod (e * 2) + e))"

definition LogApply :: "FloydContext \<Rightarrow> FloydContext" where
  "LogApply s =
     s\<lparr>log := UpdateMetadata (current_term s) (voted_for_ip s) (voted_for_port s) (log s)\<rparr>"

definition BecomeFollower :: "u64 \<Rightarrow> string \<Rightarrow> u32 \<Rightarrow> FloydContext \<Rightarrow> FloydContext" where
  "BecomeFollower new_term lip lport s =
     (if current_term s > new_term then s
      else
        let s1 = (if current_term s < new_term
                  then LogApply (s\<lparr>current_term := new_term,
                                   voted_for_ip := [], voted_for_port := 0\<rparr>)
                  else s);
            s2 = (if lip \<noteq> [] \<and> lport \<noteq> 0
                  then s1\<lparr>leader_ip := lip, leader_port := lport\<rparr>
                  else s1)
        in s2\<lparr>role := kFollower\<rparr>)"

text \<open>The \<^verbatim>\<open>assert\<close> on the role is the error branch.\<close>

definition BecomeCandidate :: "FloydContext \<Rightarrow> error + FloydContext" where
  "BecomeCandidate s =
     (if role s = kFollower \<or> role s = kCandidate
      then Inr (LogApply
             (s\<lparr>current_term := current_term s + 1,
                role := kCandidate,
                leader_ip := [], leader_port := 0,
                voted_for_ip := local_ip (options s),
                voted_for_port := local_port (options s),
                vote_quorum := 1\<rparr>))
      else Inl AssertFailed)"

definition BecomeLeader :: "FloydContext \<Rightarrow> FloydContext" where
  "BecomeLeader s =
     (if role s = kLeader then s
      else s\<lparr>role := kLeader,
             leader_ip := local_ip (options s),
             leader_port := local_port (options s)\<rparr>)"

text \<open>
  \<^verbatim>\<open>GetEntry\<close>'s status is not looked at: where the index has no entry, \<^verbatim>\<open>entry\<close> is
  still the default-constructed one.
\<close>

definition AdvanceCommitIndex :: "u64 \<Rightarrow> FloydContext \<Rightarrow> bool \<times> FloydContext" where
  "AdvanceCommitIndex new_commit_index s =
     (if new_commit_index = 0 then (False, s)
      else if commit_index s \<ge> new_commit_index then (False, s)
      else
        let last_log_index = GetLastLogIndex (log s);
            n = min last_log_index new_commit_index;
            entry = (case GetEntry (log s) n of Some e \<Rightarrow> e | None \<Rightarrow> Entry_default)
        in if entry_term entry = current_term s
           then (True, s\<lparr>commit_index := n\<rparr>)
           else (False, s))"

definition VoteAndCheck :: "u64 \<Rightarrow> FloydContext \<Rightarrow> bool \<times> FloydContext" where
  "VoteAndCheck vote_term s =
     (if current_term s \<noteq> vote_term then (False, s)
      else
        let q = vote_quorum s + 1
        in (unat q > length (members (options s)) div 2, s\<lparr>vote_quorum := q\<rparr>))"

text \<open>
  The output parameter \<^verbatim>\<open>*my_term\<close> is the argument \<open>my_term\<close> (what the caller's
  variable holds before the call) and the second component of the result (what it holds
  after). The result is (granted, my\_term, state).
\<close>

definition RequestVote ::
  "u64 \<Rightarrow> string \<Rightarrow> u32 \<Rightarrow> u64 \<Rightarrow> u64 \<Rightarrow> u64 \<Rightarrow> FloydContext \<Rightarrow> bool \<times> u64 \<times> FloydContext"
where
  "RequestVote trm ip port log_index log_term my_term s =
     (if trm < current_term s then (False, my_term, s)
      else if trm = current_term s \<and> voted_for_ip s \<noteq> []
              \<and> (voted_for_ip s \<noteq> ip \<or> voted_for_port s \<noteq> port)
      then (False, my_term, s)
      else
        let (my_log_term, my_log_index) = GetLastLogTermAndIndex (log s)
        in if log_term < my_log_term
              \<or> (log_term = my_log_term \<and> log_index < my_log_index)
           then (False, my_term, s)
           else
             let s' = LogApply (s\<lparr>voted_for_ip := ip, voted_for_port := port\<rparr>)
             in (True, current_term s, s'))"

text \<open>The result is (accepted, my\_term, state), with \<^verbatim>\<open>*my_term\<close> as in \<open>RequestVote\<close>.\<close>

definition AppendEntries ::
  "u64 \<Rightarrow> u64 \<Rightarrow> u64 \<Rightarrow> Entry list \<Rightarrow> u64 \<Rightarrow> FloydContext \<Rightarrow> bool \<times> u64 \<times> FloydContext"
where
  "AppendEntries trm pre_log_term pre_log_index es my_term s =
     (let (my_log_term, my_log_index) = GetLastLogTermAndIndex (log s)
      in if pre_log_index > my_log_index \<or> pre_log_term \<noteq> my_log_term
         then (False, my_term, s)
         else
           let l1 = (if pre_log_index < my_log_index
                     then TruncateSuffix pre_log_index (log s) else log s);
               l2 = (if length es > 0 then Append es l1 else l1)
           in (True, current_term s, s\<lparr>log := l2\<rparr>))"

section \<open>Sequences of calls\<close>

text \<open>The arguments of one \<^verbatim>\<open>RequestVote\<close> call.\<close>

record VoteRequest =
  rv_term :: u64
  rv_ip :: string
  rv_port :: u32
  rv_log_index :: u64
  rv_log_term :: u64

text \<open>
  A sequence of \<^verbatim>\<open>RequestVote\<close> calls on one replica, each on the state the previous one
  left; the result lists the granted flags in call order.
\<close>

fun RequestVotes ::
  "VoteRequest list \<Rightarrow> u64 \<Rightarrow> FloydContext \<Rightarrow> bool list \<times> u64 \<times> FloydContext"
where
  "RequestVotes [] m s = ([], m, s)"
| "RequestVotes (r # rs) m s =
     (let (g, m1, s1) = RequestVote (rv_term r) (rv_ip r) (rv_port r)
                          (rv_log_index r) (rv_log_term r) m s;
          (gs, m2, s2) = RequestVotes rs m1 s1
      in (g # gs, m2, s2))"

text \<open>
  One call of a state-changing member function of \<^verbatim>\<open>FloydContext\<close>, and its effect on the
  state. The caller's \<^verbatim>\<open>my_term\<close> variable starts at 0; the state does not depend on it.
\<close>

datatype Op =
    OpBecomeFollower u64 string u32
  | OpBecomeCandidate
  | OpBecomeLeader
  | OpAdvanceCommitIndex u64
  | OpVoteAndCheck u64
  | OpRequestVote u64 string u32 u64 u64
  | OpAppendEntries u64 u64 u64 "Entry list"

fun apply_op :: "Op \<Rightarrow> FloydContext \<Rightarrow> error + FloydContext" where
  "apply_op (OpBecomeFollower t ip p) s = Inr (BecomeFollower t ip p s)"
| "apply_op OpBecomeCandidate s = BecomeCandidate s"
| "apply_op OpBecomeLeader s = Inr (BecomeLeader s)"
| "apply_op (OpAdvanceCommitIndex n) s = Inr (snd (AdvanceCommitIndex n s))"
| "apply_op (OpVoteAndCheck t) s = Inr (snd (VoteAndCheck t s))"
| "apply_op (OpRequestVote t ip p li lt) s = Inr (snd (snd (RequestVote t ip p li lt 0 s)))"
| "apply_op (OpAppendEntries t plt pli es) s = Inr (snd (snd (AppendEntries t plt pli es 0 s)))"

fun run_ops :: "Op list \<Rightarrow> FloydContext \<Rightarrow> error + FloydContext" where
  "run_ops [] s = Inr s"
| "run_ops (x # xs) s = (case apply_op x s of Inl e \<Rightarrow> Inl e | Inr s' \<Rightarrow> run_ops xs s')"

section \<open>The log-consistency rule as the specification words it\<close>

text \<open>
  The specification's rule for \<^verbatim>\<open>append_entries\<close>: the check passes when
  \<open>prev_log_index\<close> is at most the local last log index and (\<open>prev_log_index = 0\<close> or the
  locally stored entry at \<open>prev_log_index\<close> has term \<open>prev_log_term\<close>). This follows the
  specification's words, to be compared with what \<open>AppendEntries\<close> tests.
\<close>

definition spec_consistency_check :: "FileLog \<Rightarrow> u64 \<Rightarrow> u64 \<Rightarrow> bool" where
  "spec_consistency_check l prev_log_term prev_log_index =
     (prev_log_index \<le> GetLastLogIndex l \<and>
      (prev_log_index = 0 \<or>
       (case GetEntry l prev_log_index of
          Some e \<Rightarrow> entry_term e = prev_log_term
        | None \<Rightarrow> False)))"

section \<open>Concrete replicas\<close>

text \<open>A three-member cluster, an empty log store, and the freshly constructed replica.\<close>

definition opts0 :: Options where
  "opts0 = \<lparr>local_ip = ''10.0.0.1'', local_port = 8901,
            members = [''10.0.0.1:8901'', ''10.0.0.2:8901'', ''10.0.0.3:8901''],
            elect_timeout_ms = 1000\<rparr>"

definition log0 :: FileLog where
  "log0 = \<lparr>entries = [], meta_current_term = 0, meta_voted_for_ip = [],
           meta_voted_for_port = 0, meta_flushes = 0\<rparr>"

definition ctx0 :: FloydContext where
  "ctx0 = FloydContext_init opts0 log0"

text \<open>An entry of term \<open>t\<close>.\<close>

definition ent :: "u64 \<Rightarrow> Entry" where
  "ent t = \<lparr>entry_term = t, command = ''put''\<rparr>"

text \<open>The replica in term 1 that has not voted yet.\<close>

definition ctx1 :: FloydContext where
  "ctx1 = ctx0\<lparr>current_term := 1\<rparr>"

text \<open>
  Replica A of the specification's scenario 6: its last log entry is (term 2, index 3),
  it is in term 1 and has not voted.
\<close>

definition ctxA :: FloydContext where
  "ctxA = ctx0\<lparr>current_term := 1, log := log0\<lparr>entries := [ent 1, ent 1, ent 2]\<rparr>\<rparr>"

text \<open>
  A replica of term 1 whose log holds three entries of term 1 while \<open>commit_index\<close> is 5.
\<close>

definition ctxB :: FloydContext where
  "ctxB = ctx0\<lparr>current_term := 1, log := log0\<lparr>entries := [ent 1, ent 1, ent 1]\<rparr>,
               commit_index := 5\<rparr>"

text \<open>Two vote requests of term 1, from 10.0.0.3 and then from 10.0.0.2.\<close>

definition reqs1 :: "VoteRequest list" where
  "reqs1 = [\<lparr>rv_term = 1, rv_ip = ''10.0.0.3'', rv_port = 8901,
             rv_log_index = 0, rv_log_term = 0\<rparr>,
            \<lparr>rv_term = 1, rv_ip = ''10.0.0.2'', rv_port = 8901,
             rv_log_index = 0, rv_log_term = 0\<rparr>]"

lemmas ctx_defs =
  ctx0_def ctx1_def ctxA_def ctxB_def FloydContext_init_def opts0_def log0_def ent_def

section \<open>RequestVote: one vote per term\<close>

text \<open>
  A call whose term does not exceed \<open>current_term\<close>, on a replica that has voted for a
  non-empty ip, changes neither the term nor the vote, and can only be granted to the
  identity already voted for.
\<close>

lemma RequestVote_keeps_vote:
  assumes "voted_for_ip s \<noteq> []" "trm \<le> current_term s"
    "RequestVote trm ip port li lt m s = (g, m', s')"
  shows "current_term s' = current_term s \<and> voted_for_ip s' = voted_for_ip s
       \<and> voted_for_port s' = voted_for_port s
       \<and> (g \<longrightarrow> ip = voted_for_ip s \<and> port = voted_for_port s)"
  using assms
  by (auto simp: RequestVote_def LogApply_def Let_def split: if_splits prod.splits)

lemma RequestVotes_keep_vote:
  assumes "voted_for_ip s \<noteq> []" "\<forall>r\<in>set reqs. rv_term r \<le> current_term s"
    "RequestVotes reqs m s = (gs, m', s')"
  shows "current_term s' = current_term s \<and> voted_for_ip s' = voted_for_ip s
       \<and> voted_for_port s' = voted_for_port s \<and> length gs = length reqs
       \<and> (\<forall>(r, g)\<in>set (zip reqs gs).
             g \<longrightarrow> rv_ip r = voted_for_ip s \<and> rv_port r = voted_for_port s)"
  using assms
proof (induction reqs arbitrary: s m gs m' s')
  case Nil
  then show ?case by simp
next
  case (Cons r rs)
  obtain g m1 s1 where st:
    "RequestVote (rv_term r) (rv_ip r) (rv_port r) (rv_log_index r) (rv_log_term r) m s
       = (g, m1, s1)"
    by (metis prod_cases3)
  obtain gs1 m2 s2 where rest: "RequestVotes rs m1 s1 = (gs1, m2, s2)"
    by (metis prod_cases3)
  from Cons.prems(3) st rest have eqs: "gs = g # gs1" "s' = s2" "m' = m2"
    by simp_all
  have k: "current_term s1 = current_term s \<and> voted_for_ip s1 = voted_for_ip s
       \<and> voted_for_port s1 = voted_for_port s
       \<and> (g \<longrightarrow> rv_ip r = voted_for_ip s \<and> rv_port r = voted_for_port s)"
    using RequestVote_keeps_vote[OF Cons.prems(1) _ st] Cons.prems(2) by simp
  have ih: "current_term s2 = current_term s1 \<and> voted_for_ip s2 = voted_for_ip s1
       \<and> voted_for_port s2 = voted_for_port s1 \<and> length gs1 = length rs
       \<and> (\<forall>(r, g)\<in>set (zip rs gs1).
             g \<longrightarrow> rv_ip r = voted_for_ip s1 \<and> rv_port r = voted_for_port s1)"
    using Cons.IH[of s1 m1 gs1 m2 s2] rest Cons.prems(1,2) k by simp
  show ?case using k ih eqs by auto
qed

lemma RequestVote_granted:
  assumes "RequestVote trm ip port li lt m s = (True, m1, s1)"
  shows "current_term s1 = current_term s \<and> voted_for_ip s1 = ip \<and> voted_for_port s1 = port"
  using assms
  by (auto simp: RequestVote_def LogApply_def Let_def split: if_splits prod.splits)

text \<open>
  C1, as the code has it. \<open>RequestVote\<close> never changes \<open>current_term\<close>, and it runs the
  voted-for check only when the request's term equals \<open>current_term\<close>. So the claim holds
  for the calls whose term argument does not exceed \<open>current_term\<close>: once a call has been
  granted to (ip, port) with a non-empty ip, every later call of such a sequence that is
  granted is for the same (ip, port), and the term and the recorded vote stay as they are.
\<close>

theorem RequestVote_vote_unique:
  assumes "RequestVote trm ip port li lt m s = (True, m1, s1)"
    and "ip \<noteq> []"
    and "\<forall>r\<in>set reqs. rv_term r \<le> current_term s1"
    and "RequestVotes reqs m1 s1 = (gs, m2, s2)"
  shows "current_term s1 = current_term s \<and> current_term s2 = current_term s
       \<and> voted_for_ip s2 = ip \<and> voted_for_port s2 = port
       \<and> length gs = length reqs
       \<and> (\<forall>(r, g)\<in>set (zip reqs gs). g \<longrightarrow> rv_ip r = ip \<and> rv_port r = port)"
proof -
  have g: "current_term s1 = current_term s \<and> voted_for_ip s1 = ip \<and> voted_for_port s1 = port"
    using RequestVote_granted[OF assms(1)] .
  with assms(2) have ne: "voted_for_ip s1 \<noteq> []" by simp
  show ?thesis using RequestVotes_keep_vote[OF ne assms(3) assms(4)] g by simp
qed

text \<open>
  C1, at a concrete input: the replica of term 1 grants 10.0.0.2, then denies 10.0.0.3 and
  grants 10.0.0.2 again, both asking in term 1.
\<close>

theorem RequestVote_vote_unique_witness:
  "fst (RequestVote 1 ''10.0.0.2'' 8901 0 0 0 ctx1)
   \<and> fst (RequestVotes reqs1 1 (snd (snd (RequestVote 1 ''10.0.0.2'' 8901 0 0 0 ctx1))))
       = [False, True]
   \<and> current_term (snd (snd (RequestVotes reqs1 1
         (snd (snd (RequestVote 1 ''10.0.0.2'' 8901 0 0 0 ctx1)))))) = current_term ctx1
   \<and> voted_for_ip (snd (snd (RequestVotes reqs1 1
         (snd (snd (RequestVote 1 ''10.0.0.2'' 8901 0 0 0 ctx1)))))) = ''10.0.0.2''
   \<and> voted_for_port (snd (snd (RequestVotes reqs1 1
         (snd (snd (RequestVote 1 ''10.0.0.2'' 8901 0 0 0 ctx1)))))) = 8901"
proof -
  let ?s1 = "snd (snd (RequestVote 1 ''10.0.0.2'' 8901 0 0 0 ctx1))"
  let ?r = "RequestVotes reqs1 1 ?s1"
  have a: "RequestVote 1 ''10.0.0.2'' 8901 0 0 0 ctx1 = (True, 1, ?s1)"
    by (simp add: RequestVote_def LogApply_def GetLastLogTermAndIndex_def ctx_defs)
  have b: "''10.0.0.2'' \<noteq> []" by simp
  have c: "\<forall>r\<in>set reqs1. rv_term r \<le> current_term ?s1"
    by (simp add: reqs1_def RequestVote_def LogApply_def GetLastLogTermAndIndex_def ctx_defs)
  have d: "?r = ([False, True], fst (snd ?r), snd (snd ?r))"
    by (simp add: reqs1_def RequestVote_def LogApply_def UpdateMetadata_def
        GetLastLogTermAndIndex_def ctx_defs)
  have e: "fst ?r = [False, True]" using d by (metis fst_conv)
  have f: "fst (RequestVote 1 ''10.0.0.2'' 8901 0 0 0 ctx1)"
    by (simp add: RequestVote_def LogApply_def GetLastLogTermAndIndex_def ctx_defs)
  show ?thesis using RequestVote_vote_unique[OF a b c d] e f by simp
qed

text \<open>
  C1 as stated fails: the replica of term 1 grants its vote to 10.0.0.2 (asking in term
  1) and then to 10.0.0.3 (asking in term 2), and \<open>current_term\<close> is 1 throughout.
\<close>

theorem RequestVote_two_grants_counterexample:
  "fst (RequestVote 1 ''10.0.0.2'' 8901 0 0 0 ctx1)
   \<and> fst (RequestVote 2 ''10.0.0.3'' 8901 0 0 0
            (snd (snd (RequestVote 1 ''10.0.0.2'' 8901 0 0 0 ctx1))))
   \<and> current_term ctx1 = 1
   \<and> current_term (snd (snd (RequestVote 1 ''10.0.0.2'' 8901 0 0 0 ctx1))) = 1
   \<and> current_term (snd (snd (RequestVote 2 ''10.0.0.3'' 8901 0 0 0
            (snd (snd (RequestVote 1 ''10.0.0.2'' 8901 0 0 0 ctx1)))))) = 1
   \<and> voted_for_ip (snd (snd (RequestVote 1 ''10.0.0.2'' 8901 0 0 0 ctx1))) = ''10.0.0.2''
   \<and> voted_for_ip (snd (snd (RequestVote 2 ''10.0.0.3'' 8901 0 0 0
            (snd (snd (RequestVote 1 ''10.0.0.2'' 8901 0 0 0 ctx1)))))) = ''10.0.0.3''"
  by (simp add: RequestVote_def LogApply_def GetLastLogTermAndIndex_def UpdateMetadata_def
      ctx_defs)

section \<open>RequestVote: a request of a higher term\<close>

text \<open>
  C2, as the code has it. For a call with a term above \<open>current_term\<close>, \<open>RequestVote\<close>
  leaves \<open>current_term\<close> and the role as they are and skips the voted-for check: the vote
  is granted exactly when the candidate's log is not behind the local one. When granted,
  the vote is recorded and the returned \<open>my_term\<close> is the replica's own, unchanged
  \<open>current_term\<close>; when denied, neither the state nor \<open>my_term\<close> changes.
\<close>

theorem RequestVote_higher_term:
  assumes "current_term s < trm"
    and "RequestVote trm ip port li lt m s = (g, m', s')"
  shows "current_term s' = current_term s \<and> role s' = role s
       \<and> g = (\<not> (lt < fst (GetLastLogTermAndIndex (log s))
                 \<or> (lt = fst (GetLastLogTermAndIndex (log s))
                     \<and> li < snd (GetLastLogTermAndIndex (log s)))))
       \<and> (if g then m' = current_term s \<and> voted_for_ip s' = ip \<and> voted_for_port s' = port
          else m' = m \<and> s' = s)"
  using assms
  by (auto simp: RequestVote_def LogApply_def Let_def split: if_splits prod.splits)

text \<open>
  C2, at the specification's scenario 6: candidate 10.0.0.3 with last log (term 1, index
  4) asks replica A, whose last log is (term 2, index 3), in term 5. A denies and stays
  in term 1.
\<close>

theorem RequestVote_higher_term_witness:
  "current_term ctxA < 5
   \<and> RequestVote 5 ''10.0.0.3'' 8901 4 1 0 ctxA = (False, 0, ctxA)
   \<and> current_term ctxA = 1"
proof -
  have a: "current_term ctxA < 5" by (simp add: ctx_defs)
  have b: "RequestVote 5 ''10.0.0.3'' 8901 4 1 0 ctxA = (False, 0, ctxA)"
    by (simp add: RequestVote_def GetLastLogTermAndIndex_def ctx_defs)
  show ?thesis using RequestVote_higher_term[OF a b] a b by (simp add: ctx_defs)
qed

text \<open>
  C2 as stated fails: asked in term 5, the replica of term 1 grants the vote, returns
  \<open>my_term = 1\<close>, not 5, and is still in term 1 afterwards.
\<close>

theorem RequestVote_higher_term_counterexample:
  "fst (RequestVote 5 ''10.0.0.2'' 8901 0 0 0 ctx1)
   \<and> fst (snd (RequestVote 5 ''10.0.0.2'' 8901 0 0 0 ctx1)) = 1
   \<and> fst (snd (RequestVote 5 ''10.0.0.2'' 8901 0 0 0 ctx1)) \<noteq> 5
   \<and> current_term (snd (snd (RequestVote 5 ''10.0.0.2'' 8901 0 0 0 ctx1))) = 1
   \<and> current_term (snd (snd (RequestVote 5 ''10.0.0.3'' 8901 4 1 0 ctxA))) = 1"
  by (simp add: RequestVote_def LogApply_def GetLastLogTermAndIndex_def UpdateMetadata_def
      ctx_defs)

section \<open>AppendEntries: the term argument and the consistency check\<close>

text \<open>
  C3, as the code has it. \<open>AppendEntries\<close> never looks at its term argument: the result
  (accepted flag, \<open>my_term\<close>, state) is the same for every term, so no call is rejected
  for a stale term, and no call changes the role or \<open>current_term\<close> (there is no
  demotion inside \<open>AppendEntries\<close>).
\<close>

theorem AppendEntries_ignores_term:
  "AppendEntries trm plt pli es m s = AppendEntries trm' plt pli es m s
   \<and> role (snd (snd (AppendEntries trm plt pli es m s))) = role s
   \<and> current_term (snd (snd (AppendEntries trm plt pli es m s))) = current_term s"
  by (simp add: AppendEntries_def Let_def split: prod.splits)

text \<open>
  C3, at a concrete input: on a Candidate of term 5 with an empty log, a heartbeat of
  term 1 and one of term 9 have the same outcome, and the replica stays a Candidate of
  term 5.
\<close>

theorem AppendEntries_ignores_term_witness:
  "AppendEntries 1 0 0 [] 0 (ctx0\<lparr>current_term := 5, role := kCandidate\<rparr>)
     = AppendEntries 9 0 0 [] 0 (ctx0\<lparr>current_term := 5, role := kCandidate\<rparr>)
   \<and> role (snd (snd (AppendEntries 1 0 0 [] 0 (ctx0\<lparr>current_term := 5, role := kCandidate\<rparr>))))
       = kCandidate
   \<and> current_term (snd (snd
         (AppendEntries 1 0 0 [] 0 (ctx0\<lparr>current_term := 5, role := kCandidate\<rparr>)))) = 5"
  using AppendEntries_ignores_term
    [of 1 0 0 "[]" 0 "ctx0\<lparr>current_term := 5, role := kCandidate\<rparr>" 9]
    AppendEntries_ignores_term
    [of 9 0 0 "[]" 0 "ctx0\<lparr>current_term := 5, role := kCandidate\<rparr>" 9]
  by simp

text \<open>
  C3 as stated fails: a Candidate of term 5 accepts an AppendEntries of term 1, and after
  one of term 5, and after one of term 7, it is still a Candidate of term 5.
\<close>

theorem AppendEntries_stale_term_counterexample:
  "fst (AppendEntries 1 0 0 [] 0 (ctx0\<lparr>current_term := 5, role := kCandidate\<rparr>))
   \<and> role (snd (snd (AppendEntries 5 0 0 [] 0 (ctx0\<lparr>current_term := 5, role := kCandidate\<rparr>))))
       = kCandidate
   \<and> role (snd (snd (AppendEntries 7 0 0 [] 0 (ctx0\<lparr>current_term := 5, role := kCandidate\<rparr>))))
       = kCandidate
   \<and> current_term (snd (snd
         (AppendEntries 7 0 0 [] 0 (ctx0\<lparr>current_term := 5, role := kCandidate\<rparr>)))) = 5"
  by (simp add: AppendEntries_def GetLastLogTermAndIndex_def ctx_defs)

text \<open>
  C4, as the code has it. \<open>AppendEntries\<close> passes its check exactly when
  \<open>pre_log_index\<close> is at most the local last log index and \<open>pre_log_term\<close> equals the term
  of the local last entry (not of the entry at \<open>pre_log_index\<close>). So a request with
  \<open>pre_log_index = 0\<close> passes exactly when \<open>pre_log_term\<close> is the local last log term; on
  an empty log, whose last term is 0, the request (0, 0) passes.
\<close>

theorem AppendEntries_consistency:
  "fst (AppendEntries trm plt pli es m s)
     = (pli \<le> snd (GetLastLogTermAndIndex (log s))
        \<and> plt = fst (GetLastLogTermAndIndex (log s)))
   \<and> fst (AppendEntries trm plt 0 es m s) = (plt = fst (GetLastLogTermAndIndex (log s)))
   \<and> fst (AppendEntries trm 0 0 es m (s\<lparr>log := (log s)\<lparr>entries := []\<rparr>\<rparr>))"
proof -
  have a: "fst (AppendEntries trm plt i es m s)
     = (i \<le> snd (GetLastLogTermAndIndex (log s))
        \<and> plt = fst (GetLastLogTermAndIndex (log s)))" for i
    by (auto simp: AppendEntries_def Let_def not_less split: prod.splits)
  have b: "fst (AppendEntries trm 0 0 es m (s\<lparr>log := (log s)\<lparr>entries := []\<rparr>\<rparr>))"
    by (simp add: AppendEntries_def GetLastLogTermAndIndex_def Let_def)
  show ?thesis using a[of pli] a[of 0] b by simp
qed

text \<open>
  C4, at a concrete input: on replica A (last log (term 2, index 3)) the request with
  previous entry (term 2, index 1) passes the check, although the entry at index 1 has
  term 1, and the request with previous entry (term 1, index 1) does not.
\<close>

theorem AppendEntries_consistency_witness:
  "fst (AppendEntries 2 2 1 [] 0 ctxA)
   \<and> \<not> fst (AppendEntries 2 1 1 [] 0 ctxA)
   \<and> \<not> fst (AppendEntries 2 0 0 [] 0 ctxA)
   \<and> fst (AppendEntries 2 0 0 [] 0 (ctxA\<lparr>log := (log ctxA)\<lparr>entries := []\<rparr>\<rparr>))"
  using AppendEntries_consistency [of 2 2 1 "[]" 0 ctxA]
    AppendEntries_consistency [of 2 1 1 "[]" 0 ctxA]
    AppendEntries_consistency [of 2 0 0 "[]" 0 ctxA]
  by (simp add: GetLastLogTermAndIndex_def ctx_defs)

text \<open>
  C4 as stated fails: on replica A the requests with previous entry (term 0, index 0)
  and (term 1, index 1) satisfy the specification's rule, and \<open>AppendEntries\<close> rejects
  both.
\<close>

theorem AppendEntries_consistency_counterexample:
  "spec_consistency_check (log ctxA) 0 0
   \<and> \<not> fst (AppendEntries 2 0 0 [] 0 ctxA)
   \<and> spec_consistency_check (log ctxA) 1 1
   \<and> \<not> fst (AppendEntries 2 1 1 [] 0 ctxA)"
  by (simp add: AppendEntries_def GetLastLogTermAndIndex_def GetLastLogIndex_def
      GetEntry_def spec_consistency_check_def ctx_defs)

text \<open>
  C10. \<open>AppendEntries\<close> leaves \<open>current_term\<close>, the vote, the role and the leader identity
  as they are, and a rejected call changes neither the state (so the log is neither
  truncated nor appended to) nor the caller's \<open>my_term\<close>.
\<close>

theorem AppendEntries_frame:
  assumes "AppendEntries trm plt pli es m s = (acc, m', s')"
  shows "current_term s' = current_term s \<and> voted_for_ip s' = voted_for_ip s
     \<and> voted_for_port s' = voted_for_port s \<and> role s' = role s
     \<and> leader_ip s' = leader_ip s \<and> leader_port s' = leader_port s
     \<and> (\<not> acc \<longrightarrow> s' = s \<and> m' = m)"
  using assms
  by (auto simp: AppendEntries_def Let_def split: prod.splits if_splits)

text \<open>
  C10, at a concrete input: replica A rejects the request with previous entry
  (term 1, index 3) and entries to append, and is unchanged.
\<close>

theorem AppendEntries_frame_witness:
  "AppendEntries 2 1 3 [ent 2] 7 ctxA = (False, 7, ctxA)
   \<and> entries (log ctxA) = [ent 1, ent 1, ent 2]"
proof -
  have a: "AppendEntries 2 1 3 [ent 2] 7 ctxA = (False, 7, ctxA)"
    by (simp add: AppendEntries_def GetLastLogTermAndIndex_def ctx_defs)
  show ?thesis using AppendEntries_frame[OF a] a by (simp add: ctx_defs)
qed

section \<open>RequestVote: the up-to-date check\<close>

text \<open>
  C8. With (\<open>my_log_term\<close>, \<open>my_log_index\<close>) the local last log term and index:
  whenever the candidate's last log term is lower, or equal with a lower last log index,
  \<open>RequestVote\<close> denies and leaves the state as it is; when the term check and the
  voted-for check pass, the vote is granted exactly when the candidate's log is not
  behind; and a granted vote is recorded, in memory and in the durable metadata, as
  \<open>voted_for = (ip, port)\<close>.
\<close>

theorem RequestVote_up_to_date:
  assumes "GetLastLogTermAndIndex (log s) = (my_log_term, my_log_index)"
    and "RequestVote trm ip port li lt m s = (g, m', s')"
  shows "(lt < my_log_term \<or> (lt = my_log_term \<and> li < my_log_index) \<longrightarrow> \<not> g \<and> s' = s)
     \<and> (current_term s \<le> trm
         \<and> \<not> (trm = current_term s \<and> voted_for_ip s \<noteq> []
                \<and> (voted_for_ip s \<noteq> ip \<or> voted_for_port s \<noteq> port))
        \<longrightarrow> g = (\<not> (lt < my_log_term \<or> (lt = my_log_term \<and> li < my_log_index))))
     \<and> (g \<longrightarrow> voted_for_ip s' = ip \<and> voted_for_port s' = port
              \<and> meta_voted_for_ip (log s') = ip \<and> meta_voted_for_port (log s') = port)"
  using assms
  by (auto simp: RequestVote_def LogApply_def UpdateMetadata_def Let_def
      split: if_splits prod.splits)

text \<open>
  C8, at concrete inputs: replica A (last log (term 2, index 3), term 1) denies the
  candidate whose last log is (term 1, index 4), denies the one whose last log is
  (term 2, index 2), and grants the one whose last log is (term 2, index 3), recording
  the vote.
\<close>

theorem RequestVote_up_to_date_witness:
  "GetLastLogTermAndIndex (log ctxA) = (2, 3)
   \<and> RequestVote 1 ''10.0.0.3'' 8901 4 1 0 ctxA = (False, 0, ctxA)
   \<and> RequestVote 1 ''10.0.0.3'' 8901 2 2 0 ctxA = (False, 0, ctxA)
   \<and> fst (RequestVote 1 ''10.0.0.3'' 8901 3 2 0 ctxA)
   \<and> voted_for_ip (snd (snd (RequestVote 1 ''10.0.0.3'' 8901 3 2 0 ctxA))) = ''10.0.0.3''
   \<and> voted_for_port (snd (snd (RequestVote 1 ''10.0.0.3'' 8901 3 2 0 ctxA))) = 8901"
proof -
  let ?r = "RequestVote 1 ''10.0.0.3'' 8901 3 2 0 ctxA"
  have l: "GetLastLogTermAndIndex (log ctxA) = (2, 3)"
    by (simp add: GetLastLogTermAndIndex_def ctx_defs)
  have a: "RequestVote 1 ''10.0.0.3'' 8901 4 1 0 ctxA = (False, 0, ctxA)"
    by (simp add: RequestVote_def GetLastLogTermAndIndex_def ctx_defs)
  have b: "RequestVote 1 ''10.0.0.3'' 8901 2 2 0 ctxA = (False, 0, ctxA)"
    by (simp add: RequestVote_def GetLastLogTermAndIndex_def ctx_defs)
  have c: "?r = (True, fst (snd ?r), snd (snd ?r))"
    by (simp add: RequestVote_def GetLastLogTermAndIndex_def ctx_defs)
  have g: "fst ?r"
    by (simp add: RequestVote_def GetLastLogTermAndIndex_def ctx_defs)
  show ?thesis
    using RequestVote_up_to_date[OF l a] RequestVote_up_to_date[OF l b]
      RequestVote_up_to_date[OF l c] l a b g
    by simp
qed

section \<open>BecomeFollower and the durable metadata\<close>

text \<open>
  C9. \<open>BecomeFollower\<close> writes the metadata exactly when the new term is above
  \<open>current_term\<close> (one write), and otherwise leaves the log store as it is. Called with
  \<open>new_term = current_term\<close> it changes nothing but the role, set to Follower, and, when
  \<open>leader_ip\<close> is non-empty and \<open>leader_port\<close> is not 0, the leader identity.
\<close>

theorem BecomeFollower_persist:
  "meta_flushes (log (BecomeFollower new_term lip lport s))
     = meta_flushes (log s) + (if current_term s < new_term then 1 else 0)
   \<and> (\<not> current_term s < new_term \<longrightarrow> log (BecomeFollower new_term lip lport s) = log s)
   \<and> (new_term = current_term s \<longrightarrow>
        BecomeFollower new_term lip lport s
          = s\<lparr>role := kFollower,
               leader_ip := (if lip \<noteq> [] \<and> lport \<noteq> 0 then lip else leader_ip s),
               leader_port := (if lip \<noteq> [] \<and> lport \<noteq> 0 then lport else leader_port s)\<rparr>)"
  by (auto simp: BecomeFollower_def LogApply_def UpdateMetadata_def Let_def)

text \<open>
  C9, at concrete inputs: a Candidate of term 1 that has voted for itself learns the
  leader 10.0.0.2 of term 1: role and leader change, term, vote and log store do not. With
  an empty leader ip, only the role changes.
\<close>

theorem BecomeFollower_persist_witness:
  "BecomeFollower 1 ''10.0.0.2'' 8901
     (ctx1\<lparr>role := kCandidate, voted_for_ip := ''10.0.0.1'', voted_for_port := 8901\<rparr>)
     = ctx1\<lparr>role := kFollower, voted_for_ip := ''10.0.0.1'', voted_for_port := 8901,
            leader_ip := ''10.0.0.2'', leader_port := 8901\<rparr>
   \<and> BecomeFollower 1 [] 8901
     (ctx1\<lparr>role := kCandidate, voted_for_ip := ''10.0.0.1'', voted_for_port := 8901\<rparr>)
     = ctx1\<lparr>role := kFollower, voted_for_ip := ''10.0.0.1'', voted_for_port := 8901\<rparr>
   \<and> meta_flushes (log (BecomeFollower 1 ''10.0.0.2'' 8901
        (ctx1\<lparr>role := kCandidate, voted_for_ip := ''10.0.0.1'', voted_for_port := 8901\<rparr>))) = 0
   \<and> meta_flushes (log (BecomeFollower 2 ''10.0.0.2'' 8901
        (ctx1\<lparr>role := kCandidate, voted_for_ip := ''10.0.0.1'', voted_for_port := 8901\<rparr>))) = 1"
  using BecomeFollower_persist [of 1 "''10.0.0.2''" 8901
      "ctx1\<lparr>role := kCandidate, voted_for_ip := ''10.0.0.1'', voted_for_port := 8901\<rparr>"]
    BecomeFollower_persist [of 1 "[]" 8901
      "ctx1\<lparr>role := kCandidate, voted_for_ip := ''10.0.0.1'', voted_for_port := 8901\<rparr>"]
    BecomeFollower_persist [of 2 "''10.0.0.2''" 8901
      "ctx1\<lparr>role := kCandidate, voted_for_ip := ''10.0.0.1'', voted_for_port := 8901\<rparr>"]
  by (simp add: ctx_defs)

section \<open>AdvanceCommitIndex\<close>

text \<open>A call with 0, or with an index not above \<open>commit_index\<close>, returns false and changes nothing.\<close>

lemma AdvanceCommitIndex_rejects:
  "n = 0 \<or> n \<le> commit_index s \<Longrightarrow> AdvanceCommitIndex n s = (False, s)"
  by (auto simp: AdvanceCommitIndex_def)

text \<open>
  Any other call clamps the index to the last log index, and sets \<open>commit_index\<close> to the
  clamped index, returning true, exactly when the entry read there has the current term;
  otherwise it returns false and changes nothing.
\<close>

lemma AdvanceCommitIndex_advances:
  "n \<noteq> 0 \<Longrightarrow> commit_index s < n \<Longrightarrow>
   AdvanceCommitIndex n s =
     (if entry_term (case GetEntry (log s) (min (GetLastLogIndex (log s)) n) of
                       Some e \<Rightarrow> e | None \<Rightarrow> Entry_default) = current_term s
      then (True, s\<lparr>commit_index := min (GetLastLogIndex (log s)) n\<rparr>)
      else (False, s))"
  by (auto simp: AdvanceCommitIndex_def Let_def)

text \<open>
  Where \<open>commit_index\<close> is within the log, a call does not lower it and keeps it within
  the log.
\<close>

lemma AdvanceCommitIndex_monotone_within_log:
  "commit_index s \<le> GetLastLogIndex (log s) \<Longrightarrow>
   commit_index s \<le> commit_index (snd (AdvanceCommitIndex n s))
   \<and> commit_index (snd (AdvanceCommitIndex n s))
       \<le> GetLastLogIndex (log (snd (AdvanceCommitIndex n s)))"
  by (auto simp: AdvanceCommitIndex_def Let_def)

text \<open>
  A replica reaches \<open>commit_index = 5\<close> over a log of three entries by calls of its own
  member functions: from the fresh replica, become Candidate (term 1), accept five entries
  of term 1, commit up to 5, then accept an AppendEntries with previous entry
  (term 1, index 3), which truncates the log to three entries. The next
  \<open>AdvanceCommitIndex 6\<close> returns true and lowers \<open>commit_index\<close> to 3.
\<close>

lemma commit_index_beyond_log_reachable:
  "(case run_ops [OpBecomeCandidate,
                  OpAppendEntries 1 0 0 [ent 1, ent 1, ent 1, ent 1, ent 1],
                  OpAdvanceCommitIndex 5,
                  OpAppendEntries 1 1 3 []] ctx0 of
      Inr s \<Rightarrow> commit_index s = 5 \<and> entries (log s) = [ent 1, ent 1, ent 1]
               \<and> current_term s = 1
               \<and> AdvanceCommitIndex 6 s = (True, s\<lparr>commit_index := 3\<rparr>)
    | Inl e \<Rightarrow> False)"
  by (simp add: BecomeCandidate_def LogApply_def UpdateMetadata_def AppendEntries_def
      GetLastLogTermAndIndex_def TruncateSuffix_def Append_def
      AdvanceCommitIndex_def GetLastLogIndex_def GetEntry_def ctx_defs Let_def)

text \<open>
  C5, where the code departs from it. The test against \<open>commit_index\<close> runs before the
  clamp to the last log index, so on a replica whose \<open>commit_index\<close> (5) is beyond its
  log (three entries of the current term), \<open>AdvanceCommitIndex 6\<close> returns true and sets
  \<open>commit_index\<close> to 3: \<open>commit_index\<close> decreases.
\<close>

theorem AdvanceCommitIndex_lowers_commit_index:
  "commit_index ctxB = 5
   \<and> AdvanceCommitIndex 6 ctxB = (True, ctxB\<lparr>commit_index := 3\<rparr>)
   \<and> commit_index (snd (AdvanceCommitIndex 6 ctxB)) < commit_index ctxB"
  by (simp add: AdvanceCommitIndex_def GetLastLogIndex_def GetEntry_def ctx_defs)

section \<open>The term never decreases\<close>

lemma word_le_succ: "(x::u64) + 1 \<noteq> 0 \<Longrightarrow> x \<le> x + 1"
proof -
  assume "x + 1 \<noteq> 0"
  then have "1 + x \<noteq> 0" by (simp add: add.commute)
  then have "unat (1 + x) = Suc (unat x)" by (rule unatSuc)
  then show ?thesis by (simp add: word_le_nat_alt add.commute)
qed

text \<open>
  C6, as the code has it. \<open>current_term\<close> is a 64-bit unsigned integer and
  \<open>BecomeCandidate\<close> increments it with wrap-around. Every operation that returns leaves
  \<open>current_term\<close> at least as large as before, \<open>BecomeCandidate\<close> included unless
  \<open>current_term\<close> is \<open>2^64 - 1\<close> (where the increment gives 0). \<open>BecomeFollower\<close> with a
  term below \<open>current_term\<close> changes nothing, and \<open>BecomeCandidate\<close> sets \<open>current_term\<close> to
  \<open>current_term + 1\<close> modulo \<open>2^64\<close>.
\<close>

theorem current_term_never_decreases:
  "(apply_op x s = Inr s' \<and> (x = OpBecomeCandidate \<longrightarrow> current_term s + 1 \<noteq> 0)
      \<longrightarrow> current_term s \<le> current_term s')
   \<and> (new_term < current_term s \<longrightarrow> BecomeFollower new_term lip lport s = s)
   \<and> (BecomeCandidate s = Inr s'' \<longrightarrow> current_term s'' = current_term s + 1)"
proof -
  have 1: "current_term s \<le> current_term s'"
    if "apply_op x s = Inr s'" "x = OpBecomeCandidate \<longrightarrow> current_term s + 1 \<noteq> 0"
    using that
  proof (cases x)
    case (OpBecomeFollower t ip p)
    with that show ?thesis
      by (auto simp: BecomeFollower_def LogApply_def Let_def split: if_splits)
  next
    case OpBecomeCandidate
    with that show ?thesis
      by (auto simp: BecomeCandidate_def LogApply_def word_le_succ split: if_splits)
  next
    case OpBecomeLeader
    with that show ?thesis by (auto simp: BecomeLeader_def)
  next
    case (OpAdvanceCommitIndex n)
    with that show ?thesis by (auto simp: AdvanceCommitIndex_def Let_def)
  next
    case (OpVoteAndCheck t)
    with that show ?thesis by (auto simp: VoteAndCheck_def Let_def)
  next
    case (OpRequestVote t ip p li lt)
    with that show ?thesis
      by (auto simp: RequestVote_def LogApply_def Let_def split: prod.splits)
  next
    case (OpAppendEntries t plt pli es)
    with that show ?thesis by (auto simp: AppendEntries_def Let_def split: prod.splits)
  qed
  have 2: "BecomeFollower new_term lip lport s = s" if "new_term < current_term s"
    using that by (simp add: BecomeFollower_def)
  have 3: "current_term s'' = current_term s + 1" if "BecomeCandidate s = Inr s''"
    using that by (auto simp: BecomeCandidate_def LogApply_def split: if_splits)
  show ?thesis using 1 2 3 by blast
qed

text \<open>
  C6, at concrete inputs: the replica of term 1 becomes Candidate in term 2, and
  \<open>BecomeFollower\<close> with term 0 leaves it unchanged.
\<close>

theorem current_term_never_decreases_witness:
  "(\<exists>s'. apply_op OpBecomeCandidate ctx1 = Inr s' \<and> current_term ctx1 + 1 \<noteq> 0
         \<and> current_term ctx1 \<le> current_term s' \<and> current_term s' = 2)
   \<and> 0 < current_term ctx1
   \<and> BecomeFollower 0 ''10.0.0.2'' 8901 ctx1 = ctx1"
proof -
  obtain s' where a: "apply_op OpBecomeCandidate ctx1 = Inr s'"
    by (simp add: BecomeCandidate_def ctx_defs)
  have a': "BecomeCandidate ctx1 = Inr s'" using a by simp
  have b: "current_term ctx1 + 1 \<noteq> 0" by (simp add: ctx_defs)
  have c: "0 < current_term ctx1" by (simp add: ctx_defs)
  have d: "current_term ctx1 = 1" by (simp add: ctx_defs)
  from current_term_never_decreases
    [of OpBecomeCandidate ctx1 s' 0 "''10.0.0.2''" 8901 s'] a a' b c d
  have "current_term ctx1 \<le> current_term s' \<and> current_term s' = 2
        \<and> BecomeFollower 0 ''10.0.0.2'' 8901 ctx1 = ctx1"
    by simp
  with a b c show ?thesis by blast
qed

text \<open>
  C6 as stated fails: in term \<open>2^64 - 1\<close>, \<open>BecomeCandidate\<close> returns with
  \<open>current_term = 0\<close>.
\<close>

theorem BecomeCandidate_wraps_counterexample:
  "current_term (ctx0\<lparr>current_term := 18446744073709551615\<rparr>) = 18446744073709551615
   \<and> (case BecomeCandidate (ctx0\<lparr>current_term := 18446744073709551615\<rparr>) of
        Inr s' \<Rightarrow> current_term s' = 0
                 \<and> current_term s' < current_term (ctx0\<lparr>current_term := 18446744073709551615\<rparr>)
      | Inl e \<Rightarrow> False)"
  by (simp add: BecomeCandidate_def LogApply_def ctx_defs)

section \<open>The election timeout\<close>

text \<open>
  C7, as the code has it. For a positive \<open>elect_timeout_ms\<close> whose triple does not
  overflow, and whatever the random draw \<open>r\<close>, the timeout is
  \<open>r mod (2 * elect_timeout_ms) + elect_timeout_ms\<close>: at least \<open>elect_timeout_ms\<close> and
  below \<open>3 * elect_timeout_ms\<close>.
\<close>

theorem GetElectLeaderTimeout_range:
  assumes "0 < elect_timeout_ms (options s)"
    and "3 * unat (elect_timeout_ms (options s)) < 2 ^ 64"
  shows "\<exists>t. GetElectLeaderTimeout r s = Some t
           \<and> elect_timeout_ms (options s) \<le> t
           \<and> unat t = unat r mod (2 * unat (elect_timeout_ms (options s)))
                       + unat (elect_timeout_ms (options s))
           \<and> unat t < 3 * unat (elect_timeout_ms (options s))"
proof -
  define e where "e = elect_timeout_ms (options s)"
  have epos: "0 < unat e" using assms(1) by (simp add: e_def unat_gt_0 word_neq_0_conv)
  have e3: "3 * unat e < 2 ^ 64" using assms(2) by (simp add: e_def)
  have u2: "unat (e * 2) = 2 * unat e"
    using e3 by (simp add: unat_word_ariths)
  have ne: "e * 2 \<noteq> 0"
    using u2 epos by (metis mult_is_0 unat_0 zero_neq_numeral less_numeral_extra(3))
  have um: "unat (r mod (e * 2)) = unat r mod (2 * unat e)"
    by (simp add: unat_mod u2)
  have lt: "unat r mod (2 * unat e) < 2 * unat e" using epos by simp
  have ut: "unat (r mod (e * 2) + e) = unat r mod (2 * unat e) + unat e"
    using e3 lt um by (simp add: unat_word_ariths)
  have le: "e \<le> r mod (e * 2) + e"
    by (simp add: word_le_nat_alt ut)
  show ?thesis
    using ne ut le lt by (simp add: GetElectLeaderTimeout_def Let_def e_def[symmetric])
qed

text \<open>
  C7, at a concrete input: with \<open>elect_timeout_ms = 1000\<close> and the draw 1999 the timeout
  is 2999.
\<close>

theorem GetElectLeaderTimeout_range_witness:
  "0 < elect_timeout_ms (options ctx0)
   \<and> 3 * unat (elect_timeout_ms (options ctx0)) < 2 ^ 64
   \<and> GetElectLeaderTimeout 1999 ctx0 = Some 2999
   \<and> elect_timeout_ms (options ctx0) \<le> 2999
   \<and> unat (2999 :: u64) < 3 * unat (elect_timeout_ms (options ctx0))"
proof -
  have a: "0 < elect_timeout_ms (options ctx0)" by (simp add: ctx_defs)
  have b: "3 * unat (elect_timeout_ms (options ctx0)) < 2 ^ 64" by (simp add: ctx_defs)
  have c: "GetElectLeaderTimeout 1999 ctx0 = Some 2999"
    by (simp add: GetElectLeaderTimeout_def ctx_defs)
  from GetElectLeaderTimeout_range[OF a b, of 1999] c
  have "elect_timeout_ms (options ctx0) \<le> 2999
        \<and> unat (2999 :: u64) < 3 * unat (elect_timeout_ms (options ctx0))"
    by simp
  with a b c show ?thesis by simp
qed

text \<open>
  C7 as stated fails: with \<open>elect_timeout_ms = 1000\<close> and the draw 1500 the timeout is
  2500, which is not below \<open>2 * elect_timeout_ms\<close>.
\<close>

theorem GetElectLeaderTimeout_counterexample:
  "elect_timeout_ms (options ctx0) = 1000
   \<and> GetElectLeaderTimeout 1500 ctx0 = Some 2500
   \<and> \<not> (2500 < 2 * elect_timeout_ms (options ctx0))"
  by (simp add: GetElectLeaderTimeout_def ctx_defs)

end
